theory Spec2Isabelle
  imports Main "HOL-Library.Code_Target_Numeral"
begin

section \<open>analytics-badge: the token holder and the badge renderer of badge.go\<close>

text \<open>
  Go values are modelled as follows. A \<open>string\<close> is a sequence of bytes (\<open>char list\<close>).
  An \<open>int\<close> is a mathematical integer: the only arithmetic of the functions below is a
  comparison with a constant, a division by a positive constant and the addition of at
  most 10 per character of a string held in memory, none of which can leave the range of
  a 64-bit \<open>int\<close>. A \<open>rune\<close> is its code point.
\<close>

subsection \<open>Account and oauth.Token (badge.go, lines 19-43)\<close>

text \<open>
  \<open>time.Time\<close> is a struct that Go compares field by field with \<open>==\<close>: the seconds, the
  nanoseconds and the location pointer.
\<close>

record Time =
  sec :: int
  nsec :: int
  loc :: nat

record Token =
  AccessToken :: string
  RefreshToken :: string
  Expiry :: Time

record Account =
  Username :: string
  AccessToken :: string
  RefreshToken :: string
  Expiry :: Time

text \<open>\<open>GetToken\<close> returns \<open>nil\<close> (here \<open>None\<close>) when the access token is empty.\<close>

definition GetToken :: "Account \<Rightarrow> Token option" where
  "GetToken a =
     (if Account.AccessToken a = [] then None
      else Some \<lparr>Token.AccessToken = Account.AccessToken a,
                 Token.RefreshToken = Account.RefreshToken a,
                 Token.Expiry = Account.Expiry a\<rparr>)"

text \<open>
  \<open>SetToken\<close> mutates the account through its pointer receiver; the model returns the
  account after the three statements, in the order of the source.
\<close>

definition SetToken :: "Account \<Rightarrow> Token \<Rightarrow> Account" where
  "SetToken a t =
     (let a1 = a\<lparr>Account.AccessToken := Token.AccessToken t\<rparr>;
          a2 = (if Token.RefreshToken t \<noteq> [] then a1\<lparr>Account.RefreshToken := Token.RefreshToken t\<rparr>
                else a1)
      in a2\<lparr>Account.Expiry := Token.Expiry t\<rparr>)"

subsection \<open>strconv.Itoa\<close>

text \<open>
  \<open>strconv.Itoa\<close> is Go's standard library: the decimal digits of the magnitude, most
  significant first, after a minus sign for a negative number.
\<close>

definition digit :: "nat \<Rightarrow> char" where
  "digit d = ''0123456789'' ! d"

fun FormatUint :: "nat \<Rightarrow> string" where
  "FormatUint u = (if u < 10 then [digit u] else FormatUint (u div 10) @ [digit (u mod 10)])"

declare FormatUint.simps [simp del]

definition Itoa :: "int \<Rightarrow> string" where
  "Itoa i = (if i < 0 then CHR ''-'' # FormatUint (nat (- i)) else FormatUint (nat i))"

text \<open>Go's \<open>/\<close> on integers truncates towards zero.\<close>

definition quo :: "int \<Rightarrow> int \<Rightarrow> int" where
  "quo a b = (if (a < 0) = (b < 0) then \<bar>a\<bar> div \<bar>b\<bar> else - (\<bar>a\<bar> div \<bar>b\<bar>))"

subsection \<open>metric (badge.go, lines 251-259)\<close>

definition metric :: "int \<Rightarrow> string \<times> string" where
  "metric i =
     (if i > 1000000 then (Itoa (quo i 1000000) @ ''M'', ''#4c1'')
      else if i > 1000 then (Itoa (quo i 1000) @ ''k'', ''#a4a61d'')
      else (Itoa i, ''#e05d44''))"

subsection \<open>Ranging over a string: UTF-8 decoding\<close>

text \<open>
  \<open>for _, c := range s\<close> yields the code points of \<open>s\<close>, decoded from UTF-8 as
  \<open>utf8.DecodeRuneInString\<close> does: a byte that starts no well-formed sequence yields
  \<open>RuneError\<close> (U+FFFD) and the iteration advances by that single byte.
\<close>

type_synonym rune = nat

definition byte :: "char \<Rightarrow> nat" where
  "byte c = of_char c"

definition RuneError :: rune where
  "RuneError = 0xFFFD"

text \<open>
  The table \<open>first\<close> with \<open>acceptRanges\<close> of package \<open>utf8\<close>: for a leading byte, the
  length of the sequence and the range allowed for its second byte; \<open>None\<close> for a byte
  that cannot lead a sequence of two or more bytes.
\<close>

definition first :: "nat \<Rightarrow> (nat \<times> nat \<times> nat) option" where
  "first b0 =
     (if 0xC2 \<le> b0 \<and> b0 \<le> 0xDF then Some (2, 0x80, 0xBF)
      else if b0 = 0xE0 then Some (3, 0xA0, 0xBF)
      else if 0xE1 \<le> b0 \<and> b0 \<le> 0xEC then Some (3, 0x80, 0xBF)
      else if b0 = 0xED then Some (3, 0x80, 0x9F)
      else if 0xEE \<le> b0 \<and> b0 \<le> 0xEF then Some (3, 0x80, 0xBF)
      else if b0 = 0xF0 then Some (4, 0x90, 0xBF)
      else if 0xF1 \<le> b0 \<and> b0 \<le> 0xF3 then Some (4, 0x80, 0xBF)
      else if b0 = 0xF4 then Some (4, 0x80, 0x8F)
      else None)"

definition DecodeRuneInString :: "string \<Rightarrow> rune \<times> nat" where
  "DecodeRuneInString s =
     (if length s < 1 then (RuneError, 0)
      else let s0 = byte (s ! 0) in
        if s0 < 0x80 then (s0, 1)
        else case first s0 of
          None \<Rightarrow> (RuneError, 1)
        | Some (sz, lo, hi) \<Rightarrow>
            if length s < sz then (RuneError, 1)
            else let s1 = byte (s ! 1) in
              if s1 < lo \<or> hi < s1 then (RuneError, 1)
              else if sz \<le> 2 then ((s0 mod 32) * 64 + s1 mod 64, 2)
              else let s2 = byte (s ! 2) in
                if s2 < 0x80 \<or> 0xBF < s2 then (RuneError, 1)
                else if sz \<le> 3 then ((s0 mod 16) * 4096 + (s1 mod 64) * 64 + s2 mod 64, 3)
                else let s3 = byte (s ! 3) in
                  if s3 < 0x80 \<or> 0xBF < s3 then (RuneError, 1)
                  else ((s0 mod 8) * 262144 + (s1 mod 64) * 4096 + (s2 mod 64) * 64 + s3 mod 64, 4))"

function runes :: "string \<Rightarrow> rune list" where
  "runes s =
     (if s = [] then []
      else fst (DecodeRuneInString s) # runes (drop (snd (DecodeRuneInString s)) s))"
  by pat_completeness auto
termination
  by (relation "measure length")
    (auto simp: DecodeRuneInString_def Let_def neq_Nil_conv split: option.splits prod.splits)

declare runes.simps [simp del]

subsection \<open>size (badge.go, lines 261-281)\<close>

definition rune_of :: "char \<Rightarrow> rune" where
  "rune_of c = of_char c"

text \<open>The \<open>switch\<close> of the loop body: the new value of \<open>r\<close> for the rune \<open>c\<close>.\<close>

definition size_switch :: "int \<Rightarrow> rune \<Rightarrow> int" where
  "size_switch r c =
     (if c = rune_of CHR ''i'' then r + 2
      else if c \<in> rune_of ` set [CHR '';'', CHR ''I'', CHR 0x5C, CHR ''f'', CHR ''j'', CHR ''l'',
                CHR ''r'', CHR ''t''] then r + 4
      else if c \<in> rune_of ` set [CHR ''1'', CHR ''3'', CHR ''5'', CHR ''7'', CHR ''9'', CHR '':'',
                CHR ''?'', CHR ''E'', CHR ''F'', CHR ''J'', CHR ''P'', CHR ''T'', CHR ''Z'',
                CHR ''['', CHR '']'', CHR 0x60, CHR ''b'', CHR ''c'', CHR ''d'', CHR ''g'',
                CHR ''k'', CHR ''o'', CHR ''p'', CHR ''s'', CHR ''v'', CHR ''y''] then r + 6
      else if c \<in> rune_of ` set [CHR ''K'', CHR ''L''] then r + 7
      else if c \<in> rune_of ` set [CHR ''<'', CHR ''>'', CHR ''@'', CHR ''G'', CHR ''O'', CHR ''W'',
                CHR ''m''] then r + 10
      else r + 8)"

text \<open>The loop, with the accumulator \<open>r\<close> of the source.\<close>

fun size_loop :: "int \<Rightarrow> rune list \<Rightarrow> int" where
  "size_loop r [] = r"
| "size_loop r (c # cs) = size_loop (size_switch r c) cs"

definition size_go :: "string \<Rightarrow> int" where
  "size_go s = size_loop 10 (runes s)"

subsection \<open>The template parameters of the badge (badge.go, lines 338-357)\<close>

record Params =
  Color :: string
  Left :: string
  Right :: string
  LeftWidth :: int
  RightWidth :: int
  LeftCenter :: int
  RightCenter :: int
  Total :: int

text \<open>
  The struct literal sets the two labels and the colour and leaves the integers zero;
  the five assignments that follow read the fields set before them.
\<close>

definition badge_params :: "int \<Rightarrow> Params" where
  "badge_params total' =
     (let (number, color) = metric total';
          params = \<lparr>Color = color, Left = ''users'', Right = number @ ''/week'',
                    LeftWidth = 0, RightWidth = 0, LeftCenter = 0, RightCenter = 0, Total = 0\<rparr>;
          params = params\<lparr>LeftWidth := size_go (Left params)\<rparr>;
          params = params\<lparr>RightWidth := size_go (Right params)\<rparr>;
          params = params\<lparr>Total := LeftWidth params + RightWidth params\<rparr>;
          params = params\<lparr>LeftCenter := quo (LeftWidth params) 2 + 1\<rparr>;
          params = params\<lparr>RightCenter := LeftWidth params + quo (RightWidth params) 2 - 1\<rparr>
      in params)"

subsection \<open>The width table as data\<close>

text \<open>
  The increment of a rune, by bucket, with the runes written as code points: the table
  that the \<open>switch\<close> of \<open>size\<close> is compared with below.
\<close>

definition increment :: "rune \<Rightarrow> int" where
  "increment c =
     (if c = 105 then 2
      else if c \<in> {59, 73, 92, 102, 106, 108, 114, 116} then 4
      else if c \<in> {49, 51, 53, 55, 57, 58, 63, 69, 70, 74, 80, 84, 90, 91, 93, 96, 98, 99,
                     100, 103, 107, 111, 112, 115, 118, 121} then 6
      else if c \<in> {75, 76} then 7
      else if c \<in> {60, 62, 64, 71, 79, 87, 109} then 10
      else 8)"

subsection \<open>strconv.Atoi\<close>

text \<open>
  \<open>strconv.Atoi s\<close> is \<open>ParseInt(s, 10, 0)\<close> of Go's standard library, on a platform whose
  \<open>int\<close> has 64 bits: an optional sign, then one or more decimal digits, the value within
  the range of \<open>int\<close>. The error is a \<open>*NumError\<close> holding the input and \<open>ErrSyntax\<close> or
  \<open>ErrRange\<close>. The errors of the services are opaque to the handler, which only logs
  them: \<open>ErrorString\<close> holds their message.
\<close>

datatype error = ErrSyntax | ErrRange | NumError string error | ErrorString string

text \<open>
  The loop of \<open>ParseUint\<close>, base 10, on the \<open>uint64\<close> accumulator \<open>n\<close>: the first test
  guards the multiplication, the second is the wrap-around test \<open>n1 < n\<close> of the source.
\<close>

fun ParseUint_loop :: "nat \<Rightarrow> string \<Rightarrow> error + nat" where
  "ParseUint_loop n [] = Inr n"
| "ParseUint_loop n (d # s) =
     (if \<not> (48 \<le> byte d \<and> byte d \<le> 57) then Inl ErrSyntax
      else if (2 ^ 64 - 1) div 10 + 1 \<le> n then Inl ErrRange
      else if 2 ^ 64 \<le> n * 10 + (byte d - 48) then Inl ErrRange
      else ParseUint_loop (n * 10 + (byte d - 48)) s)"

definition ParseUint :: "string \<Rightarrow> error + nat" where
  "ParseUint s = (if s = [] then Inl ErrSyntax else ParseUint_loop 0 s)"

definition Atoi :: "string \<Rightarrow> error + int" where
  "Atoi s0 =
     (if s0 = [] then Inl (NumError s0 ErrSyntax)
      else
        let neg = (hd s0 = CHR ''-'');
            s = (if hd s0 = CHR ''+'' \<or> hd s0 = CHR ''-'' then tl s0 else s0)
        in case ParseUint s of
             Inl err \<Rightarrow> Inl (NumError s0 err)
           | Inr un \<Rightarrow>
               if \<not> neg \<and> 2 ^ 63 \<le> un then Inl (NumError s0 ErrRange)
               else if neg \<and> 2 ^ 63 < un then Inl (NumError s0 ErrRange)
               else Inr (if neg then - int un else int un))"

subsection \<open>The services of a request\<close>

text \<open>
  A \<open>*datastore.Key\<close> is \<open>nil\<close> or a kind with a string id (\<open>datastore.NewKey(c, kind,
  id, 0, nil)\<close>).
\<close>

datatype Key = NilKey | NewKey string string

record Property =
  Account :: Key
  Id :: string
  Profile :: string

text \<open>A \<open>memcache.Item\<close>; the \<open>Expiration\<close> is a \<open>time.Duration\<close>, in nanoseconds.\<close>

record Item =
  Key :: string
  Value :: string
  Expiration :: int

definition Hour :: int where
  "Hour = 3600 * 1000000000"

text \<open>
  The handler calls memcache, the datastore and the Analytics API through an OAuth
  transport. None of these is code of badge.go: \<open>env\<close> holds what each call answers
  during the request. \<open>Data_Ga_Get_Do\<close> takes the transport's token (\<open>t.Token\<close>, which
  the transport may replace when it refreshes the credential) and answers the token
  after the call together with the error or the map \<open>TotalsForAllResults\<close>.
\<close>

record env =
  memcache_Get :: "string \<Rightarrow> error + string"
  datastore_Get_Property :: "Key \<Rightarrow> error + Property"
  datastore_Get_Account :: "Key \<Rightarrow> error + Account"
  analytics_New :: "error option"
  Data_Ga_Get_Do :: "Token option \<Rightarrow> string \<Rightarrow> string \<Rightarrow> string \<Rightarrow> string
                      \<Rightarrow> Token option \<times> (error + (string \<rightharpoonup> string))"
  memcache_Set :: "Item \<Rightarrow> error option"
  datastore_Put :: "Key \<Rightarrow> Account \<Rightarrow> error option"

text \<open>What a request does, in order: the calls it makes, the lines it logs, what it writes.\<close>

datatype event =
    Call_memcache_Get string
  | Call_datastore_Get Key
  | Call_analytics_New
  | Call_Data_Ga_Get "Token option" string string string string
  | Call_memcache_Set Item
  | Call_datastore_Put Key Account
  | Errorf string error
  | Infof string "Token option"
  | Header_Set string string
  | ExecuteTemplate string Params

datatype outcome = Returned | Panicked

record result =
  effects :: "event list"
  outcome :: outcome

text \<open>The kinds of event that the properties of the handler speak of.\<close>

fun is_datastore :: "event \<Rightarrow> bool" where
  "is_datastore (Call_datastore_Get k) = True"
| "is_datastore (Call_datastore_Put k a) = True"
| "is_datastore e = False"

fun is_api :: "event \<Rightarrow> bool" where
  "is_api Call_analytics_New = True"
| "is_api (Call_Data_Ga_Get t ids start_date end_date metrics) = True"
| "is_api e = False"

fun is_cache_write :: "event \<Rightarrow> bool" where
  "is_cache_write (Call_memcache_Set item) = True"
| "is_cache_write e = False"

fun is_response :: "event \<Rightarrow> bool" where
  "is_response (Header_Set k v) = True"
| "is_response (ExecuteTemplate name params) = True"
| "is_response e = False"

fun is_Errorf :: "event \<Rightarrow> bool" where
  "is_Errorf (Errorf fmt err) = True"
| "is_Errorf e = False"

subsection \<open>badge (badge.go, lines 283-361)\<close>

text \<open>
  The slice expression \<open>s[lo:hi]\<close> of a string panics unless \<open>0 \<le> lo \<le> hi \<le> len(s)\<close>.
\<close>

definition slice :: "string \<Rightarrow> int \<Rightarrow> int \<Rightarrow> string option" where
  "slice s lo hi =
     (if 0 \<le> lo \<and> lo \<le> hi \<and> hi \<le> int (length s)
      then Some (take (nat (hi - lo)) (drop (nat lo) s))
      else None)"

text \<open>Indexing a \<open>map[string]string\<close> with a missing key gives the empty string.\<close>

definition index_map :: "(string \<rightharpoonup> string) \<Rightarrow> string \<Rightarrow> string" where
  "index_map m k = (case m k of None \<Rightarrow> [] | Some v \<Rightarrow> v)"

text \<open>
  Lines 295-336, the branch taken when \<open>memcache.Get\<close> answers an error: the events of
  the branch, then the early \<open>return\<close> (or the panic of \<open>a.SetToken(t.Token)\<close> on a
  \<open>nil\<close> token) or the \<open>total\<close>. The error of \<open>datastore.Put\<close> is assigned to \<open>err\<close>
  and not read again.
\<close>

definition badge_miss :: "env \<Rightarrow> string \<Rightarrow> event list \<times> (outcome + int)" where
  "badge_miss e path =
     (let k = NewKey ''Property'' path;
          es = [Call_datastore_Get k]
      in case datastore_Get_Property e k of
        Inl err \<Rightarrow> (es @ [Errorf ''badge(Property) error: %#v'' err], Inl Returned)
      | Inr p \<Rightarrow>
        (let es = es @ [Call_datastore_Get (Account p)]
         in case datastore_Get_Account e (Account p) of
           Inl err \<Rightarrow> (es @ [Errorf ''badge(Account) error: %#v'' err], Inl Returned)
         | Inr a \<Rightarrow>
           (let loaded = a;
                t_Token = GetToken a;
                es = es @ [Call_analytics_New]
            in case analytics_New e of
              Some err \<Rightarrow> (es @ [Errorf ''badge error: %#v'' err], Inl Returned)
            | None \<Rightarrow>
              (let es = es @ [Call_Data_Ga_Get t_Token (''ga:'' @ Profile p) ''7daysAgo''
                                ''yesterday'' ''ga:users''];
                   (t_Token, res) = Data_Ga_Get_Do e t_Token (''ga:'' @ Profile p) ''7daysAgo''
                                ''yesterday'' ''ga:users''
               in case res of
                 Inl err \<Rightarrow> (es @ [Errorf ''badge(Data) error: %#v'' err], Inl Returned)
               | Inr TotalsForAllResults \<Rightarrow>
                 (case Atoi (index_map TotalsForAllResults ''ga:users'') of
                    Inl err \<Rightarrow> (es @ [Errorf ''badge(Total) error: %#v'' err], Inl Returned)
                  | Inr total' \<Rightarrow>
                    (let item = \<lparr>Key = ''b:'' @ path, Value = Itoa total',
                                  Expiration = Hour * 12\<rparr>;
                         es = es @ [Call_memcache_Set item];
                         es = (case memcache_Set e item of
                                 Some err \<Rightarrow> es @ [Errorf ''badge(Memcache) error: %#v'' err]
                               | None \<Rightarrow> es);
                         es = es @ [Infof ''setting: %#v'' t_Token]
                     in case t_Token of
                       None \<Rightarrow> (es, Inl Panicked)
                     | Some t \<Rightarrow>
                       (let a = SetToken a t
                        in if a \<noteq> loaded
                           then (let es = es @ [Call_datastore_Put (Account p) a];
                                     err = datastore_Put e (Account p) a
                                 in (es, Inr total'))
                           else (es, Inr total'))))))))"

text \<open>Lines 286-337: the value of \<open>total\<close>, from memcache or from \<open>badge_miss\<close>.\<close>

definition badge_total :: "env \<Rightarrow> string \<Rightarrow> event list \<times> (outcome + int)" where
  "badge_total e path =
     (let es = [Call_memcache_Get (''b:'' @ path)]
      in case memcache_Get e (''b:'' @ path) of
        Inr item_Value \<Rightarrow>
          (case Atoi item_Value of
             Inl err \<Rightarrow> (es @ [Errorf ''badge(Memcache read) error: %#v'' err], Inl Returned)
           | Inr total' \<Rightarrow> (es, Inr total'))
      | Inl err \<Rightarrow> (let (es', r) = badge_miss e path in (es @ es', r)))"

text \<open>Lines 358-360: the two headers and the template.\<close>

definition badge_render :: "int \<Rightarrow> event list" where
  "badge_render total' =
     [Header_Set ''Content-Type'' ''image/svg+xml'',
      Header_Set ''Cache-Control'' ''public, max-age=3600'',
      ExecuteTemplate ''badge.svg'' (badge_params total')]"

definition badge :: "env \<Rightarrow> string \<Rightarrow> result" where
  "badge e URL_Path =
     (case slice URL_Path 7 (int (length URL_Path) - 4) of
        None \<Rightarrow> \<lparr>effects = [], outcome = Panicked\<rparr>
      | Some path \<Rightarrow>
          (case badge_total e path of
             (es, Inl out) \<Rightarrow> \<lparr>effects = es, outcome = out\<rparr>
           | (es, Inr total') \<Rightarrow> \<lparr>effects = es @ badge_render total', outcome = Returned\<rparr>))"

subsection \<open>Example requests\<close>

text \<open>
  Services that hold nothing: every read misses, every write succeeds, and the API
  refuses the call.
\<close>

definition env_empty :: env where
  "env_empty =
     \<lparr>memcache_Get = (\<lambda>k. Inl (ErrorString ''memcache: cache miss'')),
      datastore_Get_Property = (\<lambda>k. Inl (ErrorString ''datastore: no such entity'')),
      datastore_Get_Account = (\<lambda>k. Inl (ErrorString ''datastore: no such entity'')),
      analytics_New = None,
      Data_Ga_Get_Do = (\<lambda>t ids start_date end_date metrics.
                          (t, Inl (ErrorString ''OAuthError: RoundTrip: no Token supplied''))),
      memcache_Set = (\<lambda>item. None),
      datastore_Put = (\<lambda>k a. None)\<rparr>"

text \<open>memcache holds \<open>"b:p1" = "42"\<close>.\<close>

definition env_hit :: env where
  "env_hit =
     env_empty\<lparr>memcache_Get :=
       (\<lambda>k. if k = ''b:p1'' then Inr ''42'' else Inl (ErrorString ''memcache: cache miss''))\<rparr>"

text \<open>memcache holds \<open>"b:p2" = "not-a-number"\<close>.\<close>

definition env_corrupt :: env where
  "env_corrupt =
     env_empty\<lparr>memcache_Get :=
       (\<lambda>k. if k = ''b:p2'' then Inr ''not-a-number''
            else Inl (ErrorString ''memcache: cache miss''))\<rparr>"

text \<open>
  The property \<open>p1\<close> with profile \<open>123\<close>, owned by \<open>alice\<close>; the API answers 7 users and
  the transport refreshes the access token, the new credential carrying no refresh token;
  \<open>datastore.Put\<close> fails.
\<close>

definition alice :: Account where
  "alice = \<lparr>Username = ''alice'', AccessToken = ''old'', RefreshToken = ''r0'',
            Expiry = \<lparr>sec = 100, nsec = 0, loc = 0\<rparr>\<rparr>"

definition refreshed :: Token where
  "refreshed = \<lparr>Token.AccessToken = ''new'', Token.RefreshToken = [],
                Token.Expiry = \<lparr>sec = 3700, nsec = 0, loc = 1\<rparr>\<rparr>"

definition env_refresh :: env where
  "env_refresh =
     env_empty\<lparr>
       datastore_Get_Property :=
         (\<lambda>k. if k = NewKey ''Property'' ''p1''
              then Inr \<lparr>Account = NewKey ''Account'' ''alice'', Id = ''p1'', Profile = ''123''\<rparr>
              else Inl (ErrorString ''datastore: no such entity'')),
       datastore_Get_Account :=
         (\<lambda>k. if k = NewKey ''Account'' ''alice'' then Inr alice
              else Inl (ErrorString ''datastore: no such entity'')),
       Data_Ga_Get_Do :=
         (\<lambda>t ids start_date end_date metrics.
            (Some refreshed, Inr [''ga:users'' \<mapsto> ''7''])),
       datastore_Put := (\<lambda>k a. Some (ErrorString ''datastore: timeout''))\<rparr>"

section \<open>Properties\<close>

subsection \<open>Integers and their decimal strings\<close>

lemma quo_nonneg: "0 \<le> a \<Longrightarrow> 0 < b \<Longrightarrow> quo a b = a div b"
  by (simp add: quo_def)

lemma digit_byte: "d < 10 \<Longrightarrow> byte (digit d) = 48 + d"
proof -
  assume "d < 10"
  then have "d = 0 \<or> d = 1 \<or> d = 2 \<or> d = 3 \<or> d = 4 \<or> d = 5 \<or> d = 6 \<or> d = 7 \<or> d = 8 \<or> d = 9"
    by arith
  then show ?thesis
    by (elim disjE) (simp_all add: digit_def byte_def)
qed

lemma ParseUint_loop_snoc:
  "ParseUint_loop n (xs @ [d]) =
     (case ParseUint_loop n xs of Inl err \<Rightarrow> Inl err | Inr m \<Rightarrow> ParseUint_loop m [d])"
  by (induction xs arbitrary: n) simp_all

lemma ParseUint_loop_digit:
  assumes "d < 10" "m * 10 + d < 2 ^ 64"
  shows "ParseUint_loop m [digit d] = Inr (m * 10 + d)"
proof -
  from assms(2) have "m < (2 ^ 64 - 1) div 10 + 1" by simp
  with assms show ?thesis by (simp add: digit_byte)
qed

lemma ParseUint_loop_FormatUint: "u < 2 ^ 64 \<Longrightarrow> ParseUint_loop 0 (FormatUint u) = Inr u"
proof (induction u rule: FormatUint.induct)
  case (1 u)
  show ?case
  proof (cases "u < 10")
    case True
    with ParseUint_loop_digit [of u 0] "1.prems" show ?thesis
      by (subst FormatUint.simps) simp
  next
    case False
    from "1.prems" have "u div 10 < 2 ^ 64" by simp
    with "1.IH" False have ih: "ParseUint_loop 0 (FormatUint (u div 10)) = Inr (u div 10)"
      by simp
    have "ParseUint_loop (u div 10) [digit (u mod 10)] = Inr (u div 10 * 10 + u mod 10)"
      using "1.prems" by (intro ParseUint_loop_digit) simp_all
    with ih False show ?thesis
      by (subst FormatUint.simps) (simp add: ParseUint_loop_snoc)
  qed
qed

lemma FormatUint_hd: "FormatUint u \<noteq> [] \<and> (\<exists>d<10. hd (FormatUint u) = digit d)"
proof (induction u rule: FormatUint.induct)
  case (1 u)
  show ?case
  proof (cases "u < 10")
    case True
    then show ?thesis by (subst (1 2) FormatUint.simps) auto
  next
    case False
    with "1.IH" show ?thesis by (subst (1 2) FormatUint.simps) auto
  qed
qed

lemma digit_not_sign: "d < 10 \<Longrightarrow> digit d \<noteq> CHR ''-'' \<and> digit d \<noteq> CHR ''+''"
  using digit_byte [of d] by (auto simp: byte_def)

lemma FormatUint_no_sign:
  "FormatUint u \<noteq> []" "hd (FormatUint u) \<noteq> CHR ''-''" "hd (FormatUint u) \<noteq> CHR ''+''"
proof -
  from FormatUint_hd [of u] obtain d where d: "d < 10" "hd (FormatUint u) = digit d"
    and ne: "FormatUint u \<noteq> []" by blast
  show "FormatUint u \<noteq> []" by (rule ne)
  from d digit_not_sign [of d] show "hd (FormatUint u) \<noteq> CHR ''-''" by simp
  from d digit_not_sign [of d] show "hd (FormatUint u) \<noteq> CHR ''+''" by simp
qed

lemma Atoi_Itoa:
  assumes "- (2 ^ 63) \<le> n" "n < 2 ^ 63"
  shows "Atoi (Itoa n) = Inr n"
proof (cases "n < 0")
  case True
  with assms have "nat (- n) < 2 ^ 64" "nat (- n) \<le> 2 ^ 63" by simp_all
  with True show ?thesis
    by (simp add: Atoi_def Itoa_def ParseUint_def FormatUint_no_sign ParseUint_loop_FormatUint)
next
  case False
  with assms have "nat n < 2 ^ 64" "nat n < 2 ^ 63" by simp_all
  with False show ?thesis
    by (simp add: Atoi_def Itoa_def ParseUint_def FormatUint_no_sign ParseUint_loop_FormatUint)
qed

lemma Itoa_small:
  "Itoa 1 = ''1''" "Itoa 2 = ''2''" "Itoa 999 = ''999''" "Itoa 1000 = ''1000''" "Itoa (- 5) = ''-5''"
  by (simp_all add: Itoa_def FormatUint.simps digit_def)

subsection \<open>The width of a string\<close>

lemma size_switch_increment: "size_switch r c = r + increment c"
  by (simp add: size_switch_def increment_def rune_of_def)

lemma size_loop_sum: "size_loop r cs = r + sum_list (map increment cs)"
  by (induction cs arbitrary: r) (simp_all add: size_switch_increment)

lemma increment_values: "increment c \<in> {2, 4, 6, 7, 8, 10}"
  by (simp add: increment_def)

lemma increment_pos: "0 \<le> increment c"
  using increment_values [of c] by auto

lemma sum_increment_ge: "c \<in> set cs \<Longrightarrow> increment c \<le> sum_list (map increment cs)"
proof (induction cs)
  case Nil then show ?case by simp
next
  case (Cons d ds)
  have "0 \<le> sum_list (map increment ds)"
    by (rule sum_list_nonneg) (auto simp: increment_pos)
  with Cons show ?case using increment_pos [of d] by auto
qed

lemma size_go_ge: "10 \<le> size_go s"
proof -
  have "0 \<le> sum_list (map increment (runes s))"
    by (rule sum_list_nonneg) (auto simp: increment_pos)
  then show ?thesis by (simp add: size_go_def size_loop_sum)
qed

section \<open>The claims\<close>

text \<open>
  C8. For every account and every new credential, \<open>SetToken\<close> overwrites the access token
  and the expiry with those of the credential in every case, and overwrites the refresh
  token only when the credential's refresh token is not empty: with an empty one the
  account keeps its refresh token. The user name is left alone.
\<close>

theorem SetToken_fields:
  "Account.AccessToken (SetToken a t) = Token.AccessToken t
   \<and> Account.Expiry (SetToken a t) = Token.Expiry t
   \<and> (Token.RefreshToken t \<noteq> [] \<longrightarrow> Account.RefreshToken (SetToken a t) = Token.RefreshToken t)
   \<and> (Token.RefreshToken t = [] \<longrightarrow> Account.RefreshToken (SetToken a t) = Account.RefreshToken a)
   \<and> Username (SetToken a t) = Username a"
  by (simp add: SetToken_def Let_def)

theorem SetToken_fields_witness:
  "Token.RefreshToken refreshed = []
   \<and> SetToken alice refreshed
       = \<lparr>Username = ''alice'', AccessToken = ''new'', RefreshToken = ''r0'',
          Expiry = \<lparr>sec = 3700, nsec = 0, loc = 1\<rparr>\<rparr>
   \<and> Token.RefreshToken (refreshed\<lparr>Token.RefreshToken := ''r1''\<rparr>) \<noteq> []
   \<and> SetToken alice (refreshed\<lparr>Token.RefreshToken := ''r1''\<rparr>)
       = \<lparr>Username = ''alice'', AccessToken = ''new'', RefreshToken = ''r1'',
          Expiry = \<lparr>sec = 3700, nsec = 0, loc = 1\<rparr>\<rparr>"
  using SetToken_fields [of alice refreshed]
    SetToken_fields [of alice "refreshed\<lparr>Token.RefreshToken := ''r1''\<rparr>"]
  by (cases "SetToken alice refreshed"; cases "SetToken alice (refreshed\<lparr>Token.RefreshToken := ''r1''\<rparr>)")
     (simp add: alice_def refreshed_def)

text \<open>
  C5. For every integer \<open>n\<close>, \<open>metric\<close> answers by exactly one of three buckets, chosen
  by strict comparisons: above 1,000,000 the quotient by 1,000,000 followed by \<open>M\<close> in
  \<open>#4c1\<close>; else above 1,000 the quotient by 1,000 followed by \<open>k\<close> in \<open>#a4a61d\<close>; else
  the decimal string of \<open>n\<close> in \<open>#e05d44\<close>. The quotient truncates (on these positive
  numbers it is the floor). The boundaries 1,000,000 and 1,000 fall into the lower
  bucket; 1,000,001 gives \<open>1M\<close>, 1500 gives \<open>1k\<close> and 999 gives \<open>999\<close>.
\<close>

theorem metric_buckets:
  "(1000000 < n \<longrightarrow> metric n = (Itoa (quo n 1000000) @ ''M'', ''#4c1'') \<and> quo n 1000000 = n div 1000000)
   \<and> (n \<le> 1000000 \<and> 1000 < n \<longrightarrow> metric n = (Itoa (quo n 1000) @ ''k'', ''#a4a61d'') \<and> quo n 1000 = n div 1000)
   \<and> (n \<le> 1000 \<longrightarrow> metric n = (Itoa n, ''#e05d44''))
   \<and> metric 1000000 = (''1000k'', ''#a4a61d'')
   \<and> metric 1000 = (''1000'', ''#e05d44'')
   \<and> metric 1000001 = (''1M'', ''#4c1'')
   \<and> metric 1999999 = (''1M'', ''#4c1'')
   \<and> metric 1500 = (''1k'', ''#a4a61d'')
   \<and> metric 999 = (''999'', ''#e05d44'')"
proof -
  have a: "1000000 < n \<longrightarrow> metric n = (Itoa (quo n 1000000) @ ''M'', ''#4c1'') \<and> quo n 1000000 = n div 1000000"
    by (simp add: metric_def quo_nonneg)
  have b: "n \<le> 1000000 \<and> 1000 < n \<longrightarrow> metric n = (Itoa (quo n 1000) @ ''k'', ''#a4a61d'') \<and> quo n 1000 = n div 1000"
    by (simp add: metric_def quo_nonneg)
  have c: "n \<le> 1000 \<longrightarrow> metric n = (Itoa n, ''#e05d44'')"
    by (simp add: metric_def)
  have d: "metric 1000000 = (''1000k'', ''#a4a61d'')" "metric 1000 = (''1000'', ''#e05d44'')"
    "metric 1000001 = (''1M'', ''#4c1'')" "metric 1999999 = (''1M'', ''#4c1'')"
    "metric 1500 = (''1k'', ''#a4a61d'')" "metric 999 = (''999'', ''#e05d44'')"
    by (simp_all add: metric_def quo_nonneg Itoa_small)
  from a b c d show ?thesis by blast
qed

theorem metric_buckets_witness:
  "(1000000 :: int) < 2500000 \<and> metric 2500000 = (''2M'', ''#4c1'')
   \<and> (2500 :: int) \<le> 1000000 \<and> (1000 :: int) < 2500 \<and> metric 2500 = (''2k'', ''#a4a61d'')
   \<and> (1 :: int) \<le> 1000 \<and> metric 1 = (''1'', ''#e05d44'')"
  using metric_buckets [of 2500000] metric_buckets [of 2500] metric_buckets [of 1]
  by (simp add: Itoa_small)

text \<open>
  A byte below \<open>0x80\<close> is never inside a longer sequence: it is decoded as itself, so a
  string that holds the byte yields its rune.
\<close>

lemma first_Some: "first b = Some (sz, lo, hi) \<Longrightarrow> 0x80 \<le> lo \<and> 2 \<le> sz \<and> sz \<le> 4"
  by (simp add: first_def split: if_splits)

lemma Decode_cases:
  assumes "s \<noteq> []"
  shows "(byte (s ! 0) < 0x80 \<and> DecodeRuneInString s = (byte (s ! 0), 1))
       \<or> (0x80 \<le> byte (s ! 0) \<and> snd (DecodeRuneInString s) = 1)
       \<or> (0x80 \<le> byte (s ! 0) \<and> 0x80 \<le> byte (s ! 1) \<and> snd (DecodeRuneInString s) = 2)
       \<or> (0x80 \<le> byte (s ! 0) \<and> 0x80 \<le> byte (s ! 1) \<and> 0x80 \<le> byte (s ! 2)
            \<and> snd (DecodeRuneInString s) = 3)
       \<or> (0x80 \<le> byte (s ! 0) \<and> 0x80 \<le> byte (s ! 1) \<and> 0x80 \<le> byte (s ! 2)
            \<and> 0x80 \<le> byte (s ! 3) \<and> snd (DecodeRuneInString s) = 4)"
proof (cases "byte (s ! 0) < 0x80")
  case True
  with assms show ?thesis by (simp add: DecodeRuneInString_def)
next
  case hi: False
  show ?thesis
  proof (cases "first (byte (s ! 0))")
    case None
    with hi assms show ?thesis by (simp add: DecodeRuneInString_def)
  next
    case (Some t)
    obtain sz lo hi' where t: "t = (sz, lo, hi')" by (cases t) auto
    from first_Some Some t have lo: "0x80 \<le> lo" and sz: "2 \<le> sz" "sz \<le> 4" by auto
    from hi assms Some t lo sz show ?thesis
      by (simp add: DecodeRuneInString_def Let_def)
  qed
qed

lemma Decode_ascii:
  assumes "s \<noteq> []" "i < snd (DecodeRuneInString s)" "byte (s ! i) < 0x80"
  shows "fst (DecodeRuneInString s) = byte (s ! i)"
proof -
  have "i < 4 \<Longrightarrow> i = 0 \<or> i = 1 \<or> i = 2 \<or> i = 3" by arith
  with Decode_cases [OF assms(1)] assms(2,3) show ?thesis
    by (elim disjE conjE) auto
qed

lemma ascii_in_runes:
  "c \<in> set s \<Longrightarrow> byte c < 0x80 \<Longrightarrow> byte c \<in> set (runes s)"
proof (induction s rule: runes.induct)
  case (1 s)
  let ?w = "snd (DecodeRuneInString s)"
  from "1.prems" have ne: "s \<noteq> []" by auto
  have "set s = set (take ?w s) \<union> set (drop ?w s)"
    by (metis append_take_drop_id set_append)
  with "1.prems" consider "c \<in> set (take ?w s)" | "c \<in> set (drop ?w s)" by auto
  then show ?case
  proof cases
    case 1
    then obtain i where "i < ?w" "i < length s" "s ! i = c"
      by (auto simp: in_set_conv_nth)
    with Decode_ascii [OF ne, of i] "1.prems" have "fst (DecodeRuneInString s) = byte c"
      by simp
    with ne show ?thesis by (subst runes.simps) simp
  next
    case 2
    with "1.IH" [OF ne] "1.prems" have "byte c \<in> set (runes (drop ?w s))" by simp
    with ne show ?thesis by (subst runes.simps) simp
  qed
qed

lemma runes_ascii:
  "byte c < 0x80 \<Longrightarrow> runes (c # s) = byte c # runes s"
  by (subst runes.simps) (simp add: DecodeRuneInString_def)

lemma runes_Nil: "runes [] = []"
  by (subst runes.simps) simp

lemma size_go_W: "size_go ''W'' = 20"
  by (simp add: size_go_def size_loop_sum runes_ascii runes_Nil byte_def increment_def)


lemma size_go_users: "size_go ''users'' = 42"
  by (simp add: size_go_def size_loop_sum runes_ascii runes_Nil byte_def increment_def)

text \<open>
  C6. For every string \<open>s\<close>, \<open>size s\<close> is 10 plus, for each rune that ranging over
  \<open>s\<close> yields, the increment of the table: 2 for \<open>i\<close>; 4, 6, 7 (\<open>K\<close> and \<open>L\<close>) and 10
  (the wide bucket, with \<open>W\<close>) for the four other buckets; 8 for every other rune. The
  function is a value of its argument alone; the empty string has width 10, and a string
  that holds a \<open>W\<close> has at least 10 more than the base.
\<close>

theorem size_go_table:
  "size_go s = 10 + sum_list (map increment (runes s))
   \<and> size_switch r c = r + increment c
   \<and> increment c \<in> {2, 4, 6, 7, 8, 10}
   \<and> increment (rune_of CHR ''i'') = 2
   \<and> increment (rune_of CHR ''K'') = 7 \<and> increment (rune_of CHR ''L'') = 7
   \<and> increment (rune_of CHR ''W'') = 10
   \<and> size_go [] = 10
   \<and> (CHR ''W'' \<in> set s \<longrightarrow> 10 + 10 \<le> size_go s)"
proof -
  have sum: "size_go s = 10 + sum_list (map increment (runes s))" for s
    by (simp add: size_go_def size_loop_sum)
  have vals: "increment (rune_of CHR ''i'') = 2" "increment (rune_of CHR ''K'') = 7"
    "increment (rune_of CHR ''L'') = 7" "increment (rune_of CHR ''W'') = 10"
    by (simp_all add: increment_def rune_of_def)
  have empty: "size_go [] = 10"
    by (simp add: sum runes_Nil)
  have wide: "10 + 10 \<le> size_go s" if "CHR ''W'' \<in> set s"
  proof -
    have "byte CHR ''W'' \<in> set (runes s)"
      using that by (rule ascii_in_runes) (simp add: byte_def)
    then have "increment (byte CHR ''W'') \<le> sum_list (map increment (runes s))"
      by (rule sum_increment_ge)
    moreover have "increment (byte CHR ''W'') = 10"
      by (simp add: increment_def byte_def)
    ultimately show ?thesis by (simp add: sum)
  qed
  from sum [of s] size_switch_increment [of r c] increment_values [of c] vals empty wide
  show ?thesis by blast
qed

theorem size_go_table_witness:
  "CHR ''W'' \<in> set ''W'' \<and> (10 + 10 :: int) \<le> size_go ''W'' \<and> size_go ''W'' = 20"
  using size_go_table [of "''W''" 0 0] by (simp add: size_go_W)

text \<open>
  C7. For every metric \<open>n\<close> the left label is \<open>users\<close> and the right label is the string
  of \<open>metric n\<close> followed by \<open>/week\<close>; the two widths are the sizes of the labels, the
  total is their sum, the left centre is half the left width plus 1 and the right centre
  is the left width plus half the right width minus 1, the halves being integer
  divisions. The left width is 42 and the left centre 22 for every \<open>n\<close>.
\<close>

theorem badge_params_geometry:
  "Left (badge_params n) = ''users''
   \<and> Right (badge_params n) = fst (metric n) @ ''/week''
   \<and> Color (badge_params n) = snd (metric n)
   \<and> LeftWidth (badge_params n) = size_go (Left (badge_params n))
   \<and> RightWidth (badge_params n) = size_go (Right (badge_params n))
   \<and> Total (badge_params n) = LeftWidth (badge_params n) + RightWidth (badge_params n)
   \<and> LeftCenter (badge_params n) = LeftWidth (badge_params n) div 2 + 1
   \<and> RightCenter (badge_params n)
       = LeftWidth (badge_params n) + RightWidth (badge_params n) div 2 - 1
   \<and> LeftWidth (badge_params n) = 42 \<and> LeftCenter (badge_params n) = 22"
proof -
  have q: "quo (size_go s) 2 = size_go s div 2" for s
    using size_go_ge [of s] by (intro quo_nonneg) simp_all
  show ?thesis
    by (simp add: badge_params_def Let_def split_beta q size_go_users)
qed

text \<open>
  C10. \<open>metric\<close> has a value on every integer, the source holding no operation that can
  panic (it divides by two non-zero constants only). For every \<open>n \<le> 1000\<close>, and so for
  every negative \<open>n\<close>, it answers the decimal string of \<open>n\<close> in \<open>#e05d44\<close>: a negative
  number keeps its sign and its magnitude (it is not clamped to \<open>0\<close>), and
  \<open>strconv.Atoi\<close> reads the string back as \<open>n\<close>. \<open>metric (-5)\<close> gives \<open>-5\<close>.
\<close>

theorem metric_negative:
  "(n \<le> 1000 \<longrightarrow> metric n = (Itoa n, ''#e05d44''))
   \<and> (n < 0 \<longrightarrow> fst (metric n) = CHR ''-'' # FormatUint (nat (- n)) \<and> fst (metric n) \<noteq> ''0'')
   \<and> (- (2 ^ 63) \<le> n \<and> n \<le> 1000 \<longrightarrow> Atoi (fst (metric n)) = Inr n)
   \<and> metric (- 5) = (''-5'', ''#e05d44'')"
proof -
  have a: "n \<le> 1000 \<longrightarrow> metric n = (Itoa n, ''#e05d44'')"
    by (simp add: metric_def)
  have b: "n < 0 \<longrightarrow> fst (metric n) = CHR ''-'' # FormatUint (nat (- n)) \<and> fst (metric n) \<noteq> ''0''"
    by (simp add: metric_def Itoa_def)
  have c: "- (2 ^ 63) \<le> n \<and> n \<le> 1000 \<longrightarrow> Atoi (fst (metric n)) = Inr n"
    by (simp add: metric_def Atoi_Itoa)
  have d: "metric (- 5) = (''-5'', ''#e05d44'')"
    by (simp add: metric_def Itoa_small)
  from a b c d show ?thesis by blast
qed

theorem metric_negative_witness:
  "(- 5 :: int) \<le> 1000 \<and> (- 5 :: int) < 0 \<and> - (2 ^ 63) \<le> (- 5 :: int)
   \<and> metric (- 5) = (''-5'', ''#e05d44'') \<and> Atoi ''-5'' = Inr (- 5)"
proof -
  have h: "- (2 ^ 63) \<le> (- 5 :: int) \<and> (- 5 :: int) \<le> 1000" by simp
  from metric_negative [of "- 5"] have m: "metric (- 5) = (''-5'', ''#e05d44'')"
    by blast
  from metric_negative [of "- 5"] h have a: "Atoi (fst (metric (- 5))) = Inr (- 5)"
    by blast
  from a have "Atoi ''-5'' = Inr (- 5)" by (simp only: m fst_conv)
  with m show ?thesis by simp
qed

subsection \<open>The handler\<close>

text \<open>
  A request path of at least 11 bytes is a prefix of 7 bytes, the property id and a
  suffix of 4 bytes; the handler then goes on with the property id.
\<close>

lemma slice_long:
  "11 \<le> length p \<Longrightarrow> slice p 7 (int (length p) - 4) = Some (take (length p - 11) (drop 7 p))"
  by (simp add: slice_def nat_diff_distrib')

lemma slice_short: "length p < 11 \<Longrightarrow> slice p 7 (int (length p) - 4) = None"
  by (simp add: slice_def)

lemma slice_path:
  assumes "length pre = 7" "length suf = 4"
  shows "slice (pre @ pid @ suf) 7 (int (length (pre @ pid @ suf)) - 4) = Some pid"
proof -
  have "11 \<le> length (pre @ pid @ suf)" using assms by simp
  then have "slice (pre @ pid @ suf) 7 (int (length (pre @ pid @ suf)) - 4)
      = Some (take (length (pre @ pid @ suf) - 11) (drop 7 (pre @ pid @ suf)))"
    by (rule slice_long)
  also have "take (length (pre @ pid @ suf) - 11) (drop 7 (pre @ pid @ suf)) = pid"
    using assms by simp
  finally show ?thesis .
qed

lemma badge_path:
  assumes "length pre = 7" "length suf = 4"
  shows "badge e (pre @ pid @ suf)
    = (case badge_total e pid of
         (es, Inl out) \<Rightarrow> \<lparr>effects = es, outcome = out\<rparr>
       | (es, Inr total') \<Rightarrow> \<lparr>effects = es @ badge_render total', outcome = Returned\<rparr>)"
  unfolding badge_def slice_path [OF assms] by (simp only: option.case)

lemma badge_total_hit:
  assumes "memcache_Get e (''b:'' @ pid) = Inr v" "Atoi v = Inr n"
  shows "badge_total e pid = ([Call_memcache_Get (''b:'' @ pid)], Inr n)"
  using assms by (simp add: badge_total_def)

lemma badge_total_corrupt:
  assumes "memcache_Get e (''b:'' @ pid) = Inr v" "Atoi v = Inl err"
  shows "badge_total e pid
    = ([Call_memcache_Get (''b:'' @ pid), Errorf ''badge(Memcache read) error: %#v'' err],
       Inl Returned)"
  using assms by (simp add: badge_total_def)

lemma badge_total_miss:
  assumes "memcache_Get e (''b:'' @ pid) = Inl err"
  shows "badge_total e pid
    = (Call_memcache_Get (''b:'' @ pid) # fst (badge_miss e pid), snd (badge_miss e pid))"
  using assms by (simp add: badge_total_def split_beta)

lemma badge_miss_no_property:
  assumes "datastore_Get_Property e (NewKey ''Property'' pid) = Inl err"
  shows "badge_miss e pid
    = ([Call_datastore_Get (NewKey ''Property'' pid), Errorf ''badge(Property) error: %#v'' err],
       Inl Returned)"
  using assms by (simp add: badge_miss_def)

text \<open>
  C2. For every property id whose entry \<open>"b:" + id\<close> memcache answers, and whose value
  \<open>strconv.Atoi\<close> reads as the integer \<open>n\<close>, the handler takes \<open>n\<close> as the total at
  once: the request reads memcache and renders the badge of \<open>n\<close>, and it calls neither
  the datastore (no read, no write) nor the Analytics API.
\<close>

theorem badge_cache_hit:
  assumes "length pre = 7" "length suf = 4"
    and "memcache_Get e (''b:'' @ pid) = Inr v" "Atoi v = Inr n"
  shows "badge_total e pid = ([Call_memcache_Get (''b:'' @ pid)], Inr n)
    \<and> badge e (pre @ pid @ suf)
        = \<lparr>effects = [Call_memcache_Get (''b:'' @ pid),
                       Header_Set ''Content-Type'' ''image/svg+xml'',
                       Header_Set ''Cache-Control'' ''public, max-age=3600'',
                       ExecuteTemplate ''badge.svg'' (badge_params n)],
           outcome = Returned\<rparr>
    \<and> filter is_datastore (effects (badge e (pre @ pid @ suf))) = []
    \<and> filter is_api (effects (badge e (pre @ pid @ suf))) = []"
  using assms(3,4)
  by (simp add: badge_path [OF assms(1,2)] badge_total_hit badge_render_def)

theorem badge_cache_hit_witness:
  "length ''/badge/'' = 7 \<and> length ''.svg'' = 4
   \<and> memcache_Get env_hit (''b:'' @ ''p1'') = Inr ''42'' \<and> Atoi ''42'' = Inr 42
   \<and> badge env_hit ''/badge/p1.svg''
       = \<lparr>effects = [Call_memcache_Get ''b:p1'',
                      Header_Set ''Content-Type'' ''image/svg+xml'',
                      Header_Set ''Cache-Control'' ''public, max-age=3600'',
                      ExecuteTemplate ''badge.svg'' (badge_params 42)],
          outcome = Returned\<rparr>"
proof -
  have h: "memcache_Get env_hit (''b:'' @ ''p1'') = Inr ''42''"
    by (simp add: env_hit_def env_empty_def)
  have a: "Atoi ''42'' = Inr 42"
    by (simp add: Atoi_def ParseUint_def byte_def)
  from badge_cache_hit [of "''/badge/''" "''.svg''" env_hit "''p1''" "''42''" 42] h a
  show ?thesis by simp
qed

text \<open>
  C3. For every property id whose entry memcache answers but whose value
  \<open>strconv.Atoi\<close> rejects, the handler reports the parse error (the line
  \<open>badge(Memcache read) error\<close> of the log, the handler having no error to return) and
  returns: it calls neither the datastore nor the Analytics API, and it sets no header
  and writes no body.
\<close>

theorem badge_cache_corrupt:
  assumes "length pre = 7" "length suf = 4"
    and "memcache_Get e (''b:'' @ pid) = Inr v" "Atoi v = Inl err"
  shows "badge_total e pid
        = ([Call_memcache_Get (''b:'' @ pid), Errorf ''badge(Memcache read) error: %#v'' err],
           Inl Returned)
    \<and> badge e (pre @ pid @ suf)
        = \<lparr>effects = [Call_memcache_Get (''b:'' @ pid),
                       Errorf ''badge(Memcache read) error: %#v'' err],
           outcome = Returned\<rparr>
    \<and> filter is_datastore (effects (badge e (pre @ pid @ suf))) = []
    \<and> filter is_api (effects (badge e (pre @ pid @ suf))) = []
    \<and> filter is_response (effects (badge e (pre @ pid @ suf))) = []"
  using assms(3,4)
  by (simp add: badge_path [OF assms(1,2)] badge_total_corrupt)

theorem badge_cache_corrupt_witness:
  "length ''/badge/'' = 7 \<and> length ''.svg'' = 4
   \<and> memcache_Get env_corrupt (''b:'' @ ''p2'') = Inr ''not-a-number''
   \<and> Atoi ''not-a-number'' = Inl (NumError ''not-a-number'' ErrSyntax)
   \<and> badge env_corrupt ''/badge/p2.svg''
       = \<lparr>effects = [Call_memcache_Get ''b:p2'',
                      Errorf ''badge(Memcache read) error: %#v''
                        (NumError ''not-a-number'' ErrSyntax)],
          outcome = Returned\<rparr>"
proof -
  have h: "memcache_Get env_corrupt (''b:'' @ ''p2'') = Inr ''not-a-number''"
    by (simp add: env_corrupt_def env_empty_def)
  have a: "Atoi ''not-a-number'' = Inl (NumError ''not-a-number'' ErrSyntax)"
    by (simp add: Atoi_def ParseUint_def byte_def)
  from badge_cache_corrupt [of "''/badge/''" "''.svg''" env_corrupt "''p2''" "''not-a-number''"
      "NumError ''not-a-number'' ErrSyntax"] h a
  show ?thesis by simp
qed

text \<open>
  C4. For every property id that memcache does not answer and for which the datastore
  has no \<open>Property\<close>, the handler reports the datastore's error (the line
  \<open>badge(Property) error\<close> of the log) and returns: it writes nothing to memcache, it
  does not call the API, and it renders no badge.
\<close>

theorem badge_unknown_property:
  assumes "length pre = 7" "length suf = 4"
    and "memcache_Get e (''b:'' @ pid) = Inl err0"
    and "datastore_Get_Property e (NewKey ''Property'' pid) = Inl err"
  shows "badge_total e pid
        = ([Call_memcache_Get (''b:'' @ pid), Call_datastore_Get (NewKey ''Property'' pid),
            Errorf ''badge(Property) error: %#v'' err],
           Inl Returned)
    \<and> badge e (pre @ pid @ suf)
        = \<lparr>effects = [Call_memcache_Get (''b:'' @ pid),
                       Call_datastore_Get (NewKey ''Property'' pid),
                       Errorf ''badge(Property) error: %#v'' err],
           outcome = Returned\<rparr>
    \<and> filter is_cache_write (effects (badge e (pre @ pid @ suf))) = []
    \<and> filter is_api (effects (badge e (pre @ pid @ suf))) = []
    \<and> filter is_response (effects (badge e (pre @ pid @ suf))) = []"
  using assms(3,4)
  by (simp add: badge_path [OF assms(1,2)] badge_total_miss badge_miss_no_property)

theorem badge_unknown_property_witness:
  "length ''/badge/'' = 7 \<and> length ''.svg'' = 4
   \<and> memcache_Get env_empty (''b:'' @ ''ghost'') = Inl (ErrorString ''memcache: cache miss'')
   \<and> datastore_Get_Property env_empty (NewKey ''Property'' ''ghost'')
       = Inl (ErrorString ''datastore: no such entity'')
   \<and> badge env_empty ''/badge/ghost.svg''
       = \<lparr>effects = [Call_memcache_Get ''b:ghost'',
                      Call_datastore_Get (NewKey ''Property'' ''ghost''),
                      Errorf ''badge(Property) error: %#v''
                        (ErrorString ''datastore: no such entity'')],
          outcome = Returned\<rparr>"
proof -
  have h: "memcache_Get env_empty (''b:'' @ ''ghost'') = Inl (ErrorString ''memcache: cache miss'')"
    "datastore_Get_Property env_empty (NewKey ''Property'' ''ghost'')
       = Inl (ErrorString ''datastore: no such entity'')"
    by (simp_all add: env_empty_def)
  from badge_unknown_property [of "''/badge/''" "''.svg''" env_empty "''ghost''"
      "ErrorString ''memcache: cache miss''" "ErrorString ''datastore: no such entity''"] h
  show ?thesis by simp
qed

text \<open>Whatever the services answer, a request with a property id reads memcache first.\<close>

lemma badge_total_first:
  "\<exists>es. fst (badge_total e path) = Call_memcache_Get (''b:'' @ path) # es"
  by (simp add: badge_total_def Let_def split_beta split: sum.splits)

lemma badge_effects_first:
  assumes "11 \<le> length p"
  shows "\<exists>es. effects (badge e p)
    = Call_memcache_Get (''b:'' @ take (length p - 11) (drop 7 p)) # es"
proof -
  let ?path = "take (length p - 11) (drop 7 p)"
  from badge_total_first [of e ?path] obtain es
    where es: "fst (badge_total e ?path) = Call_memcache_Get (''b:'' @ ?path) # es" by blast
  obtain es' r where r: "badge_total e ?path = (es', r)" by (cases "badge_total e ?path")
  with es have "es' = Call_memcache_Get (''b:'' @ ?path) # es" by simp
  with r show ?thesis
    unfolding badge_def slice_long [OF assms] by (cases r) simp_all
qed

text \<open>
  C9. The handler takes the property id by the slice \<open>path[7 : len(path)-4]\<close> with no
  test of the path: a path shorter than 11 bytes makes the bounds invalid and the
  handler panics before any call; on a longer path the id is what lies between the first
  seven and the last four bytes, whether or not these four are \<open>.svg\<close>, and the
  handler looks it up in memcache.
\<close>

theorem badge_path_slice:
  "(length p < 11 \<longrightarrow> badge e p = \<lparr>effects = [], outcome = Panicked\<rparr>)
   \<and> (11 \<le> length p \<longrightarrow>
        slice p 7 (int (length p) - 4) = Some (take (length p - 11) (drop 7 p))
        \<and> effects (badge e p) \<noteq> []
        \<and> hd (effects (badge e p))
            = Call_memcache_Get (''b:'' @ take (length p - 11) (drop 7 p)))"
proof -
  have a: "badge e p = \<lparr>effects = [], outcome = Panicked\<rparr>" if "length p < 11"
    unfolding badge_def slice_short [OF that] by simp
  have b: "effects (badge e p) \<noteq> []
        \<and> hd (effects (badge e p))
            = Call_memcache_Get (''b:'' @ take (length p - 11) (drop 7 p))" if "11 \<le> length p"
    using badge_effects_first [OF that, of e] by auto
  from a b slice_long [of p] show ?thesis by blast
qed

theorem badge_path_slice_witness:
  "length ''/badge/'' < 11
   \<and> badge env_empty ''/badge/'' = \<lparr>effects = [], outcome = Panicked\<rparr>
   \<and> length ''/badge/a.svg'' \<ge> 11
   \<and> hd (effects (badge env_empty ''/badge/a.svg'')) = Call_memcache_Get ''b:a''
   \<and> length ''/badge/p1.jpeg'' \<ge> 11
   \<and> hd (effects (badge env_empty ''/badge/p1.jpeg'')) = Call_memcache_Get ''b:p1.''"
  using badge_path_slice [of "''/badge/''" env_empty]
    badge_path_slice [of "''/badge/a.svg''" env_empty]
    badge_path_slice [of "''/badge/p1.jpeg''" env_empty]
  by simp

text \<open>
  The branch of a memcache miss, when both entities are found, the API answers and the
  total parses: the handler writes the total to memcache under \<open>"b:" + id\<close> for 12
  hours, logs a failure of that write and goes on, copies the transport's token into the
  account with \<open>SetToken\<close>, and calls \<open>datastore.Put\<close> exactly when the account differs
  from the one loaded. Nothing the handler does depends on what \<open>datastore.Put\<close>
  answers.
\<close>

lemma badge_miss_success:
  assumes "datastore_Get_Property e (NewKey ''Property'' pid) = Inr p"
    and "datastore_Get_Account e (Account p) = Inr a"
    and "analytics_New e = None"
    and "Data_Ga_Get_Do e (GetToken a) (''ga:'' @ Profile p) ''7daysAgo'' ''yesterday''
           ''ga:users'' = (Some t, Inr totals)"
    and "Atoi (index_map totals ''ga:users'') = Inr n"
  shows "badge_miss e pid
    = ([Call_datastore_Get (NewKey ''Property'' pid), Call_datastore_Get (Account p),
        Call_analytics_New,
        Call_Data_Ga_Get (GetToken a) (''ga:'' @ Profile p) ''7daysAgo'' ''yesterday''
          ''ga:users'',
        Call_memcache_Set \<lparr>Key = ''b:'' @ pid, Value = Itoa n, Expiration = Hour * 12\<rparr>]
       @ (case memcache_Set e \<lparr>Key = ''b:'' @ pid, Value = Itoa n, Expiration = Hour * 12\<rparr> of
            Some err \<Rightarrow> [Errorf ''badge(Memcache) error: %#v'' err]
          | None \<Rightarrow> [])
       @ [Infof ''setting: %#v'' (Some t)]
       @ (if SetToken a t \<noteq> a then [Call_datastore_Put (Account p) (SetToken a t)] else []),
       Inr n)"
  using assms by (simp add: badge_miss_def Let_def split: option.splits)

lemma badge_miss_Put_result: "badge_miss (e\<lparr>datastore_Put := f\<rparr>) pid = badge_miss e pid"
  by (simp add: badge_miss_def Let_def split_beta split: sum.splits option.splits)

lemma badge_total_Put_result:
  "badge_total (e\<lparr>datastore_Put := f\<rparr>) path = badge_total e path"
  by (simp add: badge_total_def Let_def badge_miss_Put_result split: sum.splits)

lemma badge_Put_result: "badge (e\<lparr>datastore_Put := f\<rparr>) p = badge e p"
  by (simp add: badge_def badge_total_Put_result split: option.splits)

lemma badge_fetch_success:
  assumes "length pre = 7" "length suf = 4"
    and "memcache_Get e (''b:'' @ pid) = Inl err0"
    and "datastore_Get_Property e (NewKey ''Property'' pid) = Inr p"
    and "datastore_Get_Account e (Account p) = Inr a"
    and "analytics_New e = None"
    and "Data_Ga_Get_Do e (GetToken a) (''ga:'' @ Profile p) ''7daysAgo'' ''yesterday''
           ''ga:users'' = (Some t, Inr totals)"
    and "Atoi (index_map totals ''ga:users'') = Inr n"
  shows "badge e (pre @ pid @ suf)
    = \<lparr>effects =
         [Call_memcache_Get (''b:'' @ pid),
          Call_datastore_Get (NewKey ''Property'' pid), Call_datastore_Get (Account p),
          Call_analytics_New,
          Call_Data_Ga_Get (GetToken a) (''ga:'' @ Profile p) ''7daysAgo'' ''yesterday''
            ''ga:users'',
          Call_memcache_Set \<lparr>Key = ''b:'' @ pid, Value = Itoa n, Expiration = Hour * 12\<rparr>]
         @ (case memcache_Set e \<lparr>Key = ''b:'' @ pid, Value = Itoa n, Expiration = Hour * 12\<rparr> of
              Some err \<Rightarrow> [Errorf ''badge(Memcache) error: %#v'' err]
            | None \<Rightarrow> [])
         @ [Infof ''setting: %#v'' (Some t)]
         @ (if SetToken a t \<noteq> a then [Call_datastore_Put (Account p) (SetToken a t)] else [])
         @ badge_render n,
       outcome = Returned\<rparr>"
  by (simp add: badge_path [OF assms(1,2)] badge_total_miss [OF assms(3)]
      badge_miss_success [OF assms(4-8)])

text \<open>
  C1. On a memcache miss followed by a successful fetch and parse, the handler is to
  write the metric to memcache under \<open>"b:" + id\<close> for 12 hours (a failure of the write
  logged, the response unaffected), to persist the account exactly when the credential
  differs from the one loaded, keeping the old refresh token when the new one is empty,
  a failure of that write being logged, and to go on with the fetched integer. The
  handler does all of this but the last log: the error of \<open>datastore.Put\<close> is assigned
  to \<open>err\<close> and never read. On the request below the token is refreshed,
  \<open>datastore.Put\<close> is called with the new access token and the old refresh token and
  fails, the badge of 7 is rendered, and the log holds no error line.
\<close>

theorem badge_Put_error_dropped:
  "datastore_Put env_refresh (NewKey ''Account'' ''alice'') (SetToken alice refreshed)
     = Some (ErrorString ''datastore: timeout'')
   \<and> badge env_refresh ''/badge/p1.svg''
     = \<lparr>effects =
          [Call_memcache_Get ''b:p1'',
           Call_datastore_Get (NewKey ''Property'' ''p1''),
           Call_datastore_Get (NewKey ''Account'' ''alice''),
           Call_analytics_New,
           Call_Data_Ga_Get
             (Some \<lparr>Token.AccessToken = ''old'', Token.RefreshToken = ''r0'',
                    Token.Expiry = \<lparr>sec = 100, nsec = 0, loc = 0\<rparr>\<rparr>)
             ''ga:123'' ''7daysAgo'' ''yesterday'' ''ga:users'',
           Call_memcache_Set \<lparr>Key = ''b:p1'', Value = ''7'', Expiration = 43200000000000\<rparr>,
           Infof ''setting: %#v'' (Some refreshed),
           Call_datastore_Put (NewKey ''Account'' ''alice'')
             \<lparr>Username = ''alice'', AccessToken = ''new'', RefreshToken = ''r0'',
              Expiry = \<lparr>sec = 3700, nsec = 0, loc = 1\<rparr>\<rparr>,
           Header_Set ''Content-Type'' ''image/svg+xml'',
           Header_Set ''Cache-Control'' ''public, max-age=3600'',
           ExecuteTemplate ''badge.svg'' (badge_params 7)],
        outcome = Returned\<rparr>
   \<and> filter is_Errorf (effects (badge env_refresh ''/badge/p1.svg'')) = []"
proof -
  have put: "datastore_Put env_refresh (NewKey ''Account'' ''alice'') (SetToken alice refreshed)
     = Some (ErrorString ''datastore: timeout'')"
    by (simp add: env_refresh_def env_empty_def)
  have atoi: "Atoi (index_map [''ga:users'' \<mapsto> ''7''] ''ga:users'') = Inr 7"
    by (simp add: index_map_def Atoi_def ParseUint_def byte_def)
  have itoa: "Itoa 7 = ''7''"
    by (simp add: Itoa_def FormatUint.simps digit_def)
  have set: "SetToken alice refreshed
      = \<lparr>Username = ''alice'', AccessToken = ''new'', RefreshToken = ''r0'',
         Expiry = \<lparr>sec = 3700, nsec = 0, loc = 1\<rparr>\<rparr>"
    by (simp add: SetToken_def alice_def refreshed_def)
  have ne: "\<lparr>Username = ''alice'', AccessToken = ''new'', RefreshToken = ''r0'',
         Expiry = \<lparr>sec = 3700, nsec = 0, loc = Suc 0\<rparr>\<rparr> \<noteq> alice"
    by (simp add: alice_def)
  have gt: "GetToken alice
      = Some \<lparr>Token.AccessToken = ''old'', Token.RefreshToken = ''r0'',
               Token.Expiry = \<lparr>sec = 100, nsec = 0, loc = 0\<rparr>\<rparr>"
    by (simp add: GetToken_def alice_def)
  have miss: "badge_miss env_refresh ''p1''
    = ([Call_datastore_Get (NewKey ''Property'' ''p1''),
        Call_datastore_Get (NewKey ''Account'' ''alice''),
        Call_analytics_New,
        Call_Data_Ga_Get
          (Some \<lparr>Token.AccessToken = ''old'', Token.RefreshToken = ''r0'',
                 Token.Expiry = \<lparr>sec = 100, nsec = 0, loc = 0\<rparr>\<rparr>)
          ''ga:123'' ''7daysAgo'' ''yesterday'' ''ga:users'',
        Call_memcache_Set \<lparr>Key = ''b:p1'', Value = ''7'', Expiration = 43200000000000\<rparr>,
        Infof ''setting: %#v'' (Some refreshed),
        Call_datastore_Put (NewKey ''Account'' ''alice'')
          \<lparr>Username = ''alice'', AccessToken = ''new'', RefreshToken = ''r0'',
           Expiry = \<lparr>sec = 3700, nsec = 0, loc = 1\<rparr>\<rparr>],
       Inr 7)"
    using atoi
    by (simp add: badge_miss_def env_refresh_def env_empty_def Let_def itoa set gt ne Hour_def)
  have total: "badge_total env_refresh ''p1''
      = (Call_memcache_Get ''b:p1'' # fst (badge_miss env_refresh ''p1''),
         snd (badge_miss env_refresh ''p1''))"
    by (simp add: badge_total_def env_refresh_def env_empty_def split_beta)
  have "badge env_refresh (''/badge/'' @ ''p1'' @ ''.svg'')
    = (case badge_total env_refresh ''p1'' of
         (es, Inl out) \<Rightarrow> \<lparr>effects = es, outcome = out\<rparr>
       | (es, Inr total') \<Rightarrow> \<lparr>effects = es @ badge_render total', outcome = Returned\<rparr>)"
    by (rule badge_path) simp_all
  with total miss put show ?thesis
    by (simp add: badge_render_def)
qed

end
